theory Spec2Isabelle
  imports Complex_Main "HOL-Library.Sublist"
begin

section \<open>The server browser client (serverBrowser.py)\<close>

text \<open>
  The module is a thin client of a REST backend: every operation builds one request,
  hands it to the \<^verbatim>\<open>requests\<close> library and turns the response into a value or an
  exception. The embedding keeps that shape:
  \<^item> values decoded from JSON are the datatype \<open>json\<close>;
  \<^item> an exception is a value of \<open>py_error\<close>, and a fallible computation has a type
    \<open>py_error + 'a\<close> with \<open>Inl\<close> for the exception raised;
  \<^item> the transport is a parameter \<open>backend\<close>, a function from the request that is sent
    to the exception \<^verbatim>\<open>requests\<close> raises or the response it returns;
  \<^item> every operation returns the list of requests it has issued next to its outcome;
  \<^item> the list object bound to \<^verbatim>\<open>mods\<close> lives in an explicit store.
\<close>

subsection \<open>Python values and exceptions\<close>

text \<open>
  What \<^verbatim>\<open>response.json()\<close> yields: \<^verbatim>\<open>None\<close>, \<^verbatim>\<open>bool\<close>, \<^verbatim>\<open>int\<close>, \<^verbatim>\<open>float\<close>,
  \<^verbatim>\<open>str\<close>, \<^verbatim>\<open>list\<close> and \<^verbatim>\<open>dict\<close>. The type \<open>'f\<close> stands for Python's \<^verbatim>\<open>float\<close>.
  A dict is the list of its items in insertion order, each key once; \<open>map_of\<close> looks
  a key up.
\<close>

datatype 'f json =
    JNull
  | JBool bool
  | JInt int
  | JFloat 'f
  | JStr string
  | JArr "'f json list"
  | JObj "(string \<times> 'f json) list"

datatype py_error =
    RuntimeError string
  | KeyError string
  | TypeError
  | ValueError
  | OverflowError
  | JSONDecodeError
  | RequestException

text \<open>
  The builtins of the Python runtime that the module calls and that are not part of
  the repository: \<^verbatim>\<open>float(i)\<close> on an int (rounds, or raises OverflowError),
  \<^verbatim>\<open>float(s)\<close> on a str (parses, or raises ValueError), and \<^verbatim>\<open>repr\<close> of a float, a
  list or a dict.
\<close>

record 'f builtins =
  float_of_int :: "int \<Rightarrow> py_error + 'f"
  float_of_str :: "string \<Rightarrow> py_error + 'f"
  repr :: "'f json \<Rightarrow> string"

fun digits :: "nat \<Rightarrow> string" where
  "digits n =
     (if n < 10 then [''0123456789'' ! n]
      else digits (n div 10) @ [''0123456789'' ! (n mod 10)])"

declare digits.simps [simp del]

text \<open>\<^verbatim>\<open>str(i)\<close> for an int: decimal digits, with a minus sign below zero.\<close>

definition str_int :: "int \<Rightarrow> string" where
  "str_int i = (if i < 0 then ''-'' @ digits (nat (- i)) else digits (nat i))"

text \<open>
  What \<^verbatim>\<open>"{}".format(v)\<close> inserts for a decoded JSON value: a str as it is, and
  \<^verbatim>\<open>str(v)\<close>, which is \<^verbatim>\<open>repr(v)\<close>, for every other type.
\<close>

definition py_str :: "'f builtins \<Rightarrow> 'f json \<Rightarrow> string" where
  "py_str rt v =
     (case v of
        JStr s \<Rightarrow> s
      | JNull \<Rightarrow> ''None''
      | JBool b \<Rightarrow> (if b then ''True'' else ''False'')
      | JInt i \<Rightarrow> str_int i
      | _ \<Rightarrow> repr rt v)"

text \<open>\<^verbatim>\<open>float(v)\<close>. A bool is an int in Python; a float is returned as it is.\<close>

definition py_float :: "'f builtins \<Rightarrow> 'f json \<Rightarrow> py_error + 'f" where
  "py_float rt v =
     (case v of
        JFloat x \<Rightarrow> Inr x
      | JInt i \<Rightarrow> float_of_int rt i
      | JBool b \<Rightarrow> float_of_int rt (if b then 1 else 0)
      | JStr s \<Rightarrow> float_of_str rt s
      | _ \<Rightarrow> Inl TypeError)"

text \<open>
  \<^verbatim>\<open>v[k]\<close> with a str key: a dict without the key raises \<^verbatim>\<open>KeyError(k)\<close>; a list and a
  str take integer indices only, and the other types are not subscriptable, so all of
  them raise TypeError.
\<close>

definition py_getitem :: "'f json \<Rightarrow> string \<Rightarrow> py_error + 'f json" where
  "py_getitem v k =
     (case v of
        JObj items \<Rightarrow> (case map_of items k of None \<Rightarrow> Inl (KeyError k) | Some x \<Rightarrow> Inr x)
      | _ \<Rightarrow> Inl TypeError)"

subsection \<open>Requests and responses\<close>

text \<open>
  A request holds what the module passes to \<^verbatim>\<open>requests.get/post/put/delete\<close>: the
  method, the URL, and the keyword arguments \<^verbatim>\<open>headers=\<close> and \<^verbatim>\<open>json=\<close>, \<open>None\<close> when
  the call does not pass them. A response holds what the module reads from
  \<^verbatim>\<open>requests.Response\<close>: \<^verbatim>\<open>status_code\<close>, and the value of \<^verbatim>\<open>response.json()\<close>,
  \<open>None\<close> when that call raises.
\<close>

datatype http_method = GET | POST | PUT | DELETE

record 'f request =
  verb :: http_method
  url :: string
  headers :: "(string \<times> string) list option"
  json :: "'f json option"

record 'f response =
  status_code :: int
  decoded :: "'f json option"

type_synonym 'f backend = "'f request \<Rightarrow> py_error + 'f response"

text \<open>
  \<^verbatim>\<open>response.ok\<close> of the \<^verbatim>\<open>requests\<close> library: true unless \<^verbatim>\<open>raise_for_status()\<close>
  raises, which it does for a status code from 400 up to 599.
\<close>

definition ok :: "'f response \<Rightarrow> bool" where
  "ok response = (\<not> (400 \<le> status_code response \<and> status_code response < 600))"

text \<open>What a call has done: the requests it issued, and its result or exception.\<close>

record ('f, 'a) effect =
  sent :: "'f request list"
  outcome :: "py_error + 'a"

text \<open>The list objects of the heap, by address.\<close>

type_synonym addr = nat
type_synonym 'f store = "addr \<Rightarrow> 'f json list"

subsection \<open>Error normalisation\<close>

text \<open>
  \<open>buildError\<close> and \<open>checkResponse\<close> are \<^verbatim>\<open>__buildError\<close> and \<^verbatim>\<open>__checkResponse\<close> of
  the module. The arguments of \<^verbatim>\<open>format\<close> are evaluated from left to right, so the first
  subscript that fails decides the exception.
\<close>

definition buildError :: "'f builtins \<Rightarrow> int \<Rightarrow> 'f json \<Rightarrow> py_error + string" where
  "buildError rt errorCode errResponse =
     (case py_getitem errResponse ''message'' of
        Inl e \<Rightarrow> Inl e
      | Inr m \<Rightarrow>
     (case py_getitem errResponse ''context'' of
        Inl e \<Rightarrow> Inl e
      | Inr c \<Rightarrow>
     (case py_getitem errResponse ''status'' of
        Inl e \<Rightarrow> Inl e
      | Inr s \<Rightarrow>
          Inr (''Server could not be updated: error '' @ str_int errorCode @
               ''.\<newline>Message: '' @ py_str rt m @
               ''\<newline>Context: '' @ py_str rt c @
               ''\<newline>Status: '' @ py_str rt s @ ''\<newline>''))))"

text \<open>
  Every path of \<^verbatim>\<open>__checkResponse\<close> ends in a \<^verbatim>\<open>raise\<close>, so its value is the exception
  that leaves it. The bare \<^verbatim>\<open>except:\<close> turns any failure of \<^verbatim>\<open>response.json()\<close> into
  the first RuntimeError; an exception of \<^verbatim>\<open>__buildError\<close> is not caught.
\<close>

definition checkResponse :: "'f builtins \<Rightarrow> 'f response \<Rightarrow> py_error" where
  "checkResponse rt response =
     (case decoded response of
        None \<Rightarrow>
          RuntimeError (''Server error (could not parse response body): '' @
                        str_int (status_code response))
      | Some parsed \<Rightarrow>
          if \<not> (500 \<le> status_code response \<and> status_code response < 600)
          then (case buildError rt (status_code response) parsed of
                  Inl e \<Rightarrow> e
                | Inr msg \<Rightarrow> RuntimeError msg)
          else RuntimeError (''Server error: '' @ str_int (status_code response)))"

subsection \<open>The operations\<close>

text \<open>
  \<^verbatim>\<open>mods\<close> is a reference to a list object; the dict built for the body holds that
  reference and \<^verbatim>\<open>requests\<close> serialises the list as it is in the store at the call,
  without writing to it. The function has no statement that writes to the list, so
  the store it leaves is the one it was given.
\<close>

definition registerServer ::
  "'f builtins \<Rightarrow> 'f backend \<Rightarrow> 'f store \<Rightarrow> string \<Rightarrow> int \<Rightarrow> int \<Rightarrow> int \<Rightarrow> string \<Rightarrow>
   string \<Rightarrow> string \<Rightarrow> int \<Rightarrow> int \<Rightarrow> addr \<Rightarrow>
   'f store \<times> ('f, 'f json \<times> 'f json \<times> 'f) effect" where
  "registerServer rt backend st address gamePort pingPort queryPort name description
       current_map player_count max_players mods =
     (let serverObj = JObj
            [(''ports'', JObj [(''game'', JInt gamePort),
                               (''ping'', JInt pingPort),
                               (''a2s'', JInt queryPort)]),
             (''name'', JStr name),
             (''description'', JStr description),
             (''current_map'', JStr current_map),
             (''player_count'', JInt player_count),
             (''max_players'', JInt max_players),
             (''mods'', JArr (st mods))];
          request = \<lparr>verb = POST, url = address @ ''/api/v1/servers'',
                     headers = None, json = Some serverObj\<rparr>
      in (st,
          \<lparr>sent = [request],
           outcome =
             (case backend request of
                Inl e \<Rightarrow> Inl e
              | Inr response \<Rightarrow>
                  if \<not> ok response then Inl (checkResponse rt response)
                  else
                    (case decoded response of
                       None \<Rightarrow> Inl JSONDecodeError
                     | Some jsResponse \<Rightarrow>
                         (case py_getitem jsResponse ''server'' of
                            Inl e \<Rightarrow> Inl e
                          | Inr server \<Rightarrow>
                         (case py_getitem server ''unique_id'' of
                            Inl e \<Rightarrow> Inl e
                          | Inr unique_id \<Rightarrow>
                         (case py_getitem jsResponse ''key'' of
                            Inl e \<Rightarrow> Inl e
                          | Inr key \<Rightarrow>
                         (case py_getitem jsResponse ''refresh_before'' of
                            Inl e \<Rightarrow> Inl e
                          | Inr rb \<Rightarrow>
                         (case py_float rt rb of
                            Inl e \<Rightarrow> Inl e
                          | Inr deadline \<Rightarrow> Inr (unique_id, key, deadline))))))))\<rparr>))"

text \<open>
  The defaults of the signature. The default of \<^verbatim>\<open>mods\<close> is one list object, made
  when the \<^verbatim>\<open>def\<close> statement runs and shared by every call that omits the argument.
\<close>

definition default_mods :: addr where
  "default_mods = 0"

definition registerServer_call ::
  "'f builtins \<Rightarrow> 'f backend \<Rightarrow> 'f store \<Rightarrow> string \<Rightarrow> int option \<Rightarrow> int option \<Rightarrow>
   int option \<Rightarrow> string option \<Rightarrow> string option \<Rightarrow> string option \<Rightarrow> int option \<Rightarrow>
   int option \<Rightarrow> addr option \<Rightarrow>
   'f store \<times> ('f, 'f json \<times> 'f json \<times> 'f) effect" where
  "registerServer_call rt backend st address gamePort pingPort queryPort name description
       current_map player_count max_players mods =
     registerServer rt backend st address
       (case gamePort of None \<Rightarrow> 7777 | Some p \<Rightarrow> p)
       (case pingPort of None \<Rightarrow> 3075 | Some p \<Rightarrow> p)
       (case queryPort of None \<Rightarrow> 7071 | Some p \<Rightarrow> p)
       (case name of None \<Rightarrow> ''Chivalry 2 Server'' | Some s \<Rightarrow> s)
       (case description of None \<Rightarrow> ''No description'' | Some s \<Rightarrow> s)
       (case current_map of None \<Rightarrow> ''Unknown'' | Some s \<Rightarrow> s)
       (case player_count of None \<Rightarrow> - 1 | Some n \<Rightarrow> n)
       (case max_players of None \<Rightarrow> - 1 | Some n \<Rightarrow> n)
       (case mods of None \<Rightarrow> default_mods | Some a \<Rightarrow> a)"

definition updateServer ::
  "'f builtins \<Rightarrow> 'f backend \<Rightarrow> string \<Rightarrow> string \<Rightarrow> string \<Rightarrow> int \<Rightarrow> int \<Rightarrow> string \<Rightarrow>
   ('f, unit) effect" where
  "updateServer rt backend address unique_id key player_count max_players current_map =
     (let updateBody = JObj [(''player_count'', JInt player_count),
                             (''max_players'', JInt max_players),
                             (''current_map'', JStr current_map)];
          updateHeaders = [(''x-chiv2-server-browser-key'', key)];
          request = \<lparr>verb = PUT, url = address @ ''/api/v1/servers/'' @ unique_id,
                     headers = Some updateHeaders, json = Some updateBody\<rparr>
      in \<lparr>sent = [request],
          outcome =
            (case backend request of
               Inl e \<Rightarrow> Inl e
             | Inr response \<Rightarrow>
                 if \<not> ok response then Inl (checkResponse rt response)
                 else Inr ())\<rparr>)"

definition delete ::
  "'f builtins \<Rightarrow> 'f backend \<Rightarrow> string \<Rightarrow> string \<Rightarrow> string \<Rightarrow> ('f, unit) effect" where
  "delete rt backend address unique_id key =
     (let updateHeaders = [(''x-chiv2-server-browser-key'', key)];
          request = \<lparr>verb = DELETE, url = address @ ''/api/v1/servers/'' @ unique_id,
                     headers = Some updateHeaders, json = Some (JObj [])\<rparr>
      in \<lparr>sent = [request],
          outcome =
            (case backend request of
               Inl e \<Rightarrow> Inl e
             | Inr response \<Rightarrow>
                 if \<not> ok response then Inl (checkResponse rt response)
                 else Inr ())\<rparr>)"

text \<open>The body of \<^verbatim>\<open>heartbeat\<close> never reads \<^verbatim>\<open>port\<close>, whatever its type.\<close>

definition heartbeat ::
  "'f builtins \<Rightarrow> 'f backend \<Rightarrow> string \<Rightarrow> string \<Rightarrow> string \<Rightarrow> 'p \<Rightarrow> ('f, 'f) effect" where
  "heartbeat rt backend address unique_id key port =
     (let heartbeatHeaders = [(''x-chiv2-server-browser-key'', key)];
          request = \<lparr>verb = POST,
                     url = address @ ''/api/v1/servers/'' @ unique_id @ ''/heartbeat'',
                     headers = Some heartbeatHeaders, json = None\<rparr>
      in \<lparr>sent = [request],
          outcome =
            (case backend request of
               Inl e \<Rightarrow> Inl e
             | Inr response \<Rightarrow>
                 if \<not> ok response then Inl (checkResponse rt response)
                 else
                   (case decoded response of
                      None \<Rightarrow> Inl JSONDecodeError
                    | Some parsed \<Rightarrow>
                        (case py_getitem parsed ''refresh_before'' of
                           Inl e \<Rightarrow> Inl e
                         | Inr rb \<Rightarrow> py_float rt rb)))\<rparr>)"

text \<open>
  The signature of \<^verbatim>\<open>heartbeat\<close> has four parameters and no default: a call that
  binds \<^verbatim>\<open>address\<close>, \<^verbatim>\<open>unique_id\<close> and \<^verbatim>\<open>key\<close> but not \<^verbatim>\<open>port\<close> raises TypeError
  before the body runs.
\<close>

definition heartbeat_call ::
  "'f builtins \<Rightarrow> 'f backend \<Rightarrow> string \<Rightarrow> string \<Rightarrow> string \<Rightarrow> 'p option \<Rightarrow> ('f, 'f) effect" where
  "heartbeat_call rt backend address unique_id key port =
     (case port of
        None \<Rightarrow> \<lparr>sent = [], outcome = Inl TypeError\<rparr>
      | Some p \<Rightarrow> heartbeat rt backend address unique_id key p)"

definition getServerList ::
  "'f builtins \<Rightarrow> 'f backend \<Rightarrow> string \<Rightarrow> ('f, 'f json) effect" where
  "getServerList rt backend address =
     (let request = \<lparr>verb = GET, url = address @ ''/api/v1/servers'',
                     headers = None, json = None\<rparr>
      in \<lparr>sent = [request],
          outcome =
            (case backend request of
               Inl e \<Rightarrow> Inl e
             | Inr response \<Rightarrow>
                 if \<not> ok response then Inl (checkResponse rt response)
                 else
                   (case decoded response of
                      None \<Rightarrow> Inl JSONDecodeError
                    | Some parsed \<Rightarrow> py_getitem parsed ''servers''))\<rparr>)"

subsection \<open>Sample inputs\<close>

text \<open>A backend that answers every request with one response.\<close>

definition mocked :: "'f response \<Rightarrow> 'f backend" where
  "mocked response = (\<lambda>request. Inr response)"

text \<open>
  A runtime with the reals for floats, for evaluation at concrete inputs. It agrees
  with Python only where it is used below: an int converts to the real of the same
  value, as Python does for an int below \<open>2 ^ 53\<close> in magnitude (above, Python rounds
  or raises OverflowError); \<^verbatim>\<open>float\<close> of a str and \<^verbatim>\<open>repr\<close> are placeholders, and no
  evaluation below reaches them.
\<close>

definition sample_rt :: "real builtins" where
  "sample_rt = \<lparr>float_of_int = (\<lambda>i. Inr (of_int i)),
                float_of_str = (\<lambda>s. Inl ValueError),
                repr = (\<lambda>v. ''...'')\<rparr>"

definition sample_store :: "real store" where
  "sample_store = (\<lambda>a. if a = 1 then [JStr ''mod-a'', JStr ''mod-b''] else [])"

section \<open>Properties\<close>

subsection \<open>Auxiliary facts\<close>

lemma ok_2xx: "200 \<le> status_code response \<Longrightarrow> status_code response < 300 \<Longrightarrow> ok response"
  by (simp add: ok_def)

lemma py_getitem_JObj:
  "map_of items k = Some v \<Longrightarrow> py_getitem (JObj items) k = Inr v"
  by (simp add: py_getitem_def)

lemma py_getitem_missing:
  "map_of items k = None \<Longrightarrow> py_getitem (JObj items) k = Inl (KeyError k)"
  by (simp add: py_getitem_def)

lemma buildError_fields:
  assumes "map_of items ''message'' = Some m"
    and "map_of items ''context'' = Some c"
    and "map_of items ''status'' = Some s"
  shows "buildError rt code (JObj items) =
           Inr (''Server could not be updated: error '' @ str_int code @
                ''.\<newline>Message: '' @ py_str rt m @
                ''\<newline>Context: '' @ py_str rt c @
                ''\<newline>Status: '' @ py_str rt s @ ''\<newline>'')"
  using assms by (simp add: buildError_def py_getitem_JObj)

lemma sublist_format:
  "sublist a (p0 @ a @ p1 @ b @ p2 @ c @ p3 @ d @ p4)"
  "sublist b (p0 @ a @ p1 @ b @ p2 @ c @ p3 @ d @ p4)"
  "sublist c (p0 @ a @ p1 @ b @ p2 @ c @ p3 @ d @ p4)"
  "sublist d (p0 @ a @ p1 @ b @ p2 @ c @ p3 @ d @ p4)"
proof -
  show "sublist a (p0 @ a @ p1 @ b @ p2 @ c @ p3 @ d @ p4)"
    by (rule sublist_appendI)
  have "p0 @ a @ p1 @ b @ p2 @ c @ p3 @ d @ p4 = (p0 @ a @ p1) @ b @ (p2 @ c @ p3 @ d @ p4)"
    by simp
  then show "sublist b (p0 @ a @ p1 @ b @ p2 @ c @ p3 @ d @ p4)"
    unfolding sublist_def by blast
  have "p0 @ a @ p1 @ b @ p2 @ c @ p3 @ d @ p4 = (p0 @ a @ p1 @ b @ p2) @ c @ (p3 @ d @ p4)"
    by simp
  then show "sublist c (p0 @ a @ p1 @ b @ p2 @ c @ p3 @ d @ p4)"
    unfolding sublist_def by blast
  have "p0 @ a @ p1 @ b @ p2 @ c @ p3 @ d @ p4 = (p0 @ a @ p1 @ b @ p2 @ c @ p3) @ d @ p4"
    by simp
  then show "sublist d (p0 @ a @ p1 @ b @ p2 @ c @ p3 @ d @ p4)"
    unfolding sublist_def by blast
qed

lemma mocked_apply: "mocked response request = Inr response"
  by (simp add: mocked_def)

lemma not_ok_4xx_5xx:
  "400 \<le> status_code response \<Longrightarrow> status_code response < 600 \<Longrightarrow> \<not> ok response"
  by (simp add: ok_def)

lemma checkResponse_undecoded:
  "decoded response = None \<Longrightarrow>
   checkResponse rt response =
     RuntimeError (''Server error (could not parse response body): '' @
                   str_int (status_code response))"
  by (simp add: checkResponse_def)

text \<open>
  For a response that is not ok, each operation raises the exception of
  \<^verbatim>\<open>__checkResponse\<close> and nothing else.
\<close>

lemma non_ok_outcome:
  assumes "\<not> ok response"
  shows "outcome (snd (registerServer rt (mocked response) st address gamePort pingPort
            queryPort name description current_map player_count max_players mods))
           = Inl (checkResponse rt response)"
    and "outcome (updateServer rt (mocked response) address unique_id key player_count
            max_players current_map)
           = Inl (checkResponse rt response)"
    and "outcome (delete rt (mocked response) address unique_id key)
           = Inl (checkResponse rt response)"
    and "outcome (heartbeat rt (mocked response) address unique_id key port)
           = Inl (checkResponse rt response)"
    and "outcome (getServerList rt (mocked response) address)
           = Inl (checkResponse rt response)"
  using assms
  by (simp_all add: registerServer_def updateServer_def delete_def heartbeat_def
        getServerList_def Let_def mocked_apply)

subsection \<open>Error normalisation\<close>

lemma checkResponse_server_error:
  assumes "decoded response = Some parsed"
    and "500 \<le> status_code response" and "status_code response < 600"
  shows "checkResponse rt response =
           RuntimeError (''Server error: '' @ str_int (status_code response))"
  using assms by (simp add: checkResponse_def)

lemma checkResponse_detailed:
  assumes "decoded response = Some (JObj items)"
    and "\<not> (500 \<le> status_code response \<and> status_code response < 600)"
    and "map_of items ''message'' = Some m"
    and "map_of items ''context'' = Some c"
    and "map_of items ''status'' = Some s"
  shows "checkResponse rt response =
           RuntimeError
             (''Server could not be updated: error '' @ str_int (status_code response) @
              ''.\<newline>Message: '' @ py_str rt m @
              ''\<newline>Context: '' @ py_str rt c @
              ''\<newline>Status: '' @ py_str rt s @ ''\<newline>'')"
  using assms(1,2) buildError_fields [OF assms(3-5), of rt "status_code response"]
  by (simp add: checkResponse_def)

text \<open>
  C1, as the specification states it, fails. The operations take a response for a
  failure when \<^verbatim>\<open>response.ok\<close> is false, which is so for a status code from 400 up to
  599 only: a response with status 304 and an error body is not 2xx, yet
  \<^verbatim>\<open>updateServer\<close> returns \<^verbatim>\<open>None\<close> for it and \<^verbatim>\<open>getServerList\<close> raises
  \<^verbatim>\<open>KeyError('servers')\<close>. And a response with status 404 whose body is an object
  without the key \<^verbatim>\<open>message\<close> raises \<^verbatim>\<open>KeyError('message')\<close>, not a detailed error.
\<close>

theorem not_modified_no_detailed_error_counterexample:
  "outcome (updateServer sample_rt
      (mocked \<lparr>status_code = 304, decoded = Some 
         (JObj [(''message'', JStr ''not found''), (''context'', JStr ''server''), (''status'', JStr ''error'')])\<rparr>)
      ''http://0.0.0.0:8080'' ''abc'' ''k'' 3 16 ''Unknown'') = Inr ()
   \<and> outcome (getServerList sample_rt
      (mocked \<lparr>status_code = 304, decoded = Some 
         (JObj [(''message'', JStr ''not found''), (''context'', JStr ''server''), (''status'', JStr ''error'')])\<rparr>)
      ''http://0.0.0.0:8080'') = Inl (KeyError ''servers'')
   \<and> outcome (getServerList sample_rt
      (mocked \<lparr>status_code = 404, decoded = Some (JObj [(''detail'', JStr ''Not Found'')])\<rparr>)
      ''http://0.0.0.0:8080'') = Inl (KeyError ''message'')"
  by (simp add: updateServer_def getServerList_def Let_def mocked_apply ok_def
        checkResponse_def buildError_def py_getitem_def)

text \<open>
  C1, amended. For each of the five operations and every response whose body parses
  as JSON: with a status code from 500 up to 599 the call raises the RuntimeError whose
  message is \<^verbatim>\<open>Server error: \<close> followed by the status code, so nothing of the body
  is in it; with a status code from 400 up to 499 and a body that is an object with the
  keys \<^verbatim>\<open>message\<close>, \<^verbatim>\<open>context\<close> and \<^verbatim>\<open>status\<close>, the call raises the RuntimeError
  whose message is the detailed text, which contains the status code and the three
  fields as \<^verbatim>\<open>format\<close> prints them.
\<close>

theorem non_success_generic_or_detailed:
  assumes "decoded response = Some parsed"
  shows "(500 \<le> status_code response \<and> status_code response < 600 \<longrightarrow>
            outcome (snd (registerServer rt (mocked response) st address gamePort pingPort
                queryPort name description current_map player_count max_players mods))
              = Inl (RuntimeError (''Server error: '' @ str_int (status_code response)))
            \<and> outcome (updateServer rt (mocked response) address unique_id key player_count
                max_players current_map)
              = Inl (RuntimeError (''Server error: '' @ str_int (status_code response)))
            \<and> outcome (delete rt (mocked response) address unique_id key)
              = Inl (RuntimeError (''Server error: '' @ str_int (status_code response)))
            \<and> outcome (heartbeat rt (mocked response) address unique_id key port)
              = Inl (RuntimeError (''Server error: '' @ str_int (status_code response)))
            \<and> outcome (getServerList rt (mocked response) address)
              = Inl (RuntimeError (''Server error: '' @ str_int (status_code response))))
       \<and> (400 \<le> status_code response \<and> status_code response < 500 \<longrightarrow>
            parsed = JObj items \<longrightarrow>
            map_of items ''message'' = Some m \<longrightarrow>
            map_of items ''context'' = Some c \<longrightarrow>
            map_of items ''status'' = Some s \<longrightarrow>
            (\<exists>text.
               text = ''Server could not be updated: error '' @ str_int (status_code response) @
                 ''.\<newline>Message: '' @ py_str rt m @
                 ''\<newline>Context: '' @ py_str rt c @
                 ''\<newline>Status: '' @ py_str rt s @ ''\<newline>''
               \<and> sublist (str_int (status_code response)) text
               \<and> sublist (py_str rt m) text
               \<and> sublist (py_str rt c) text
               \<and> sublist (py_str rt s) text
               \<and> outcome (snd (registerServer rt (mocked response) st address gamePort pingPort
                   queryPort name description current_map player_count max_players mods))
                 = Inl (RuntimeError text)
               \<and> outcome (updateServer rt (mocked response) address unique_id key player_count
                   max_players current_map)
                 = Inl (RuntimeError text)
               \<and> outcome (delete rt (mocked response) address unique_id key)
                 = Inl (RuntimeError text)
               \<and> outcome (heartbeat rt (mocked response) address unique_id key port)
                 = Inl (RuntimeError text)
               \<and> outcome (getServerList rt (mocked response) address)
                 = Inl (RuntimeError text)))"
proof -
  let ?text = "''Server could not be updated: error '' @ str_int (status_code response) @
                 ''.\<newline>Message: '' @ py_str rt m @
                 ''\<newline>Context: '' @ py_str rt c @
                 ''\<newline>Status: '' @ py_str rt s @ ''\<newline>''"
  have server: "500 \<le> status_code response \<and> status_code response < 600 \<longrightarrow>
            outcome (snd (registerServer rt (mocked response) st address gamePort pingPort
                queryPort name description current_map player_count max_players mods))
              = Inl (RuntimeError (''Server error: '' @ str_int (status_code response)))
            \<and> outcome (updateServer rt (mocked response) address unique_id key player_count
                max_players current_map)
              = Inl (RuntimeError (''Server error: '' @ str_int (status_code response)))
            \<and> outcome (delete rt (mocked response) address unique_id key)
              = Inl (RuntimeError (''Server error: '' @ str_int (status_code response)))
            \<and> outcome (heartbeat rt (mocked response) address unique_id key port)
              = Inl (RuntimeError (''Server error: '' @ str_int (status_code response)))
            \<and> outcome (getServerList rt (mocked response) address)
              = Inl (RuntimeError (''Server error: '' @ str_int (status_code response)))"
  proof (rule impI)
    assume range: "500 \<le> status_code response \<and> status_code response < 600"
    then have failed: "\<not> ok response"
      by (simp add: not_ok_4xx_5xx)
    from range have raised: "checkResponse rt response =
        RuntimeError (''Server error: '' @ str_int (status_code response))"
      by (simp add: checkResponse_server_error [OF assms])
    show "outcome (snd (registerServer rt (mocked response) st address gamePort pingPort
                queryPort name description current_map player_count max_players mods))
              = Inl (RuntimeError (''Server error: '' @ str_int (status_code response)))
            \<and> outcome (updateServer rt (mocked response) address unique_id key player_count
                max_players current_map)
              = Inl (RuntimeError (''Server error: '' @ str_int (status_code response)))
            \<and> outcome (delete rt (mocked response) address unique_id key)
              = Inl (RuntimeError (''Server error: '' @ str_int (status_code response)))
            \<and> outcome (heartbeat rt (mocked response) address unique_id key port)
              = Inl (RuntimeError (''Server error: '' @ str_int (status_code response)))
            \<and> outcome (getServerList rt (mocked response) address)
              = Inl (RuntimeError (''Server error: '' @ str_int (status_code response)))"
      by (simp add: non_ok_outcome [OF failed] raised)
  qed
  have client: "400 \<le> status_code response \<and> status_code response < 500 \<longrightarrow>
            parsed = JObj items \<longrightarrow>
            map_of items ''message'' = Some m \<longrightarrow>
            map_of items ''context'' = Some c \<longrightarrow>
            map_of items ''status'' = Some s \<longrightarrow>
            (\<exists>text.
               text = ?text
               \<and> sublist (str_int (status_code response)) text
               \<and> sublist (py_str rt m) text
               \<and> sublist (py_str rt c) text
               \<and> sublist (py_str rt s) text
               \<and> outcome (snd (registerServer rt (mocked response) st address gamePort pingPort
                   queryPort name description current_map player_count max_players mods))
                 = Inl (RuntimeError text)
               \<and> outcome (updateServer rt (mocked response) address unique_id key player_count
                   max_players current_map)
                 = Inl (RuntimeError text)
               \<and> outcome (delete rt (mocked response) address unique_id key)
                 = Inl (RuntimeError text)
               \<and> outcome (heartbeat rt (mocked response) address unique_id key port)
                 = Inl (RuntimeError text)
               \<and> outcome (getServerList rt (mocked response) address)
                 = Inl (RuntimeError text))"
  proof (intro impI)
    assume range: "400 \<le> status_code response \<and> status_code response < 500"
      and obj: "parsed = JObj items"
      and m: "map_of items ''message'' = Some m"
      and c: "map_of items ''context'' = Some c"
      and s: "map_of items ''status'' = Some s"
    from range have failed: "\<not> ok response"
      by (simp add: not_ok_4xx_5xx)
    from range have other: "\<not> (500 \<le> status_code response \<and> status_code response < 600)"
      by simp
    from assms obj have body: "decoded response = Some (JObj items)"
      by simp
    note raised = checkResponse_detailed [OF body other m c s, of rt]
    have parts: "sublist (str_int (status_code response)) ?text"
      "sublist (py_str rt m) ?text" "sublist (py_str rt c) ?text"
      "sublist (py_str rt s) ?text"
      by (rule sublist_format)+
    have calls: "outcome (snd (registerServer rt (mocked response) st address gamePort pingPort
          queryPort name description current_map player_count max_players mods))
        = Inl (RuntimeError ?text)
      \<and> outcome (updateServer rt (mocked response) address unique_id key player_count
          max_players current_map)
        = Inl (RuntimeError ?text)
      \<and> outcome (delete rt (mocked response) address unique_id key)
        = Inl (RuntimeError ?text)
      \<and> outcome (heartbeat rt (mocked response) address unique_id key port)
        = Inl (RuntimeError ?text)
      \<and> outcome (getServerList rt (mocked response) address)
        = Inl (RuntimeError ?text)"
      unfolding non_ok_outcome [OF failed] raised by (intro conjI refl)
    show "\<exists>text.
               text = ?text
               \<and> sublist (str_int (status_code response)) text
               \<and> sublist (py_str rt m) text
               \<and> sublist (py_str rt c) text
               \<and> sublist (py_str rt s) text
               \<and> outcome (snd (registerServer rt (mocked response) st address gamePort pingPort
                   queryPort name description current_map player_count max_players mods))
                 = Inl (RuntimeError text)
               \<and> outcome (updateServer rt (mocked response) address unique_id key player_count
                   max_players current_map)
                 = Inl (RuntimeError text)
               \<and> outcome (delete rt (mocked response) address unique_id key)
                 = Inl (RuntimeError text)
               \<and> outcome (heartbeat rt (mocked response) address unique_id key port)
                 = Inl (RuntimeError text)
               \<and> outcome (getServerList rt (mocked response) address)
                 = Inl (RuntimeError text)"
      by (rule exI [of _ ?text]) (intro conjI refl parts calls)
  qed
  from server client show ?thesis
    by (rule conjI)
qed

theorem non_success_generic_or_detailed_witness:
  "outcome (snd (registerServer sample_rt (mocked \<lparr>status_code = 503, decoded = Some (JObj [(''message'', JStr ''not found''), (''context'', JStr ''server''), (''status'', JStr ''error'')])\<rparr>) sample_store
       ''http://0.0.0.0:8080'' 7777 3075 7071 ''Chivalry 2 Server'' ''No description''
       ''Unknown'' 3 16 default_mods))
     = Inl (RuntimeError ''Server error: 503'')
   \<and> outcome (updateServer sample_rt (mocked \<lparr>status_code = 503, decoded = Some (JObj [(''message'', JStr ''not found''), (''context'', JStr ''server''), (''status'', JStr ''error'')])\<rparr>) ''http://0.0.0.0:8080''
       ''abc'' ''k'' 3 16 ''Unknown'')
     = Inl (RuntimeError ''Server error: 503'')
   \<and> outcome (delete sample_rt (mocked \<lparr>status_code = 503, decoded = Some (JObj [(''message'', JStr ''not found''), (''context'', JStr ''server''), (''status'', JStr ''error'')])\<rparr>) ''http://0.0.0.0:8080'' ''abc'' ''k'')
     = Inl (RuntimeError ''Server error: 503'')
   \<and> outcome (heartbeat sample_rt (mocked \<lparr>status_code = 503, decoded = Some (JObj [(''message'', JStr ''not found''), (''context'', JStr ''server''), (''status'', JStr ''error'')])\<rparr>) ''http://0.0.0.0:8080'' ''abc'' ''k''
       (7777 :: int))
     = Inl (RuntimeError ''Server error: 503'')
   \<and> outcome (getServerList sample_rt (mocked \<lparr>status_code = 503, decoded = Some (JObj [(''message'', JStr ''not found''), (''context'', JStr ''server''), (''status'', JStr ''error'')])\<rparr>) ''http://0.0.0.0:8080'')
     = Inl (RuntimeError ''Server error: 503'')
   \<and> (\<exists>text.
        text = ''Server could not be updated: error 404.\<newline>Message: not found\<newline>Context: server\<newline>Status: error\<newline>''
        \<and> sublist ''404'' text \<and> sublist ''not found'' text
        \<and> sublist ''server'' text \<and> sublist ''error'' text
        \<and> outcome (snd (registerServer sample_rt (mocked \<lparr>status_code = 404, decoded = Some (JObj [(''message'', JStr ''not found''), (''context'', JStr ''server''), (''status'', JStr ''error'')])\<rparr>) sample_store
            ''http://0.0.0.0:8080'' 7777 3075 7071 ''Chivalry 2 Server'' ''No description''
            ''Unknown'' 3 16 default_mods))
          = Inl (RuntimeError text)
        \<and> outcome (updateServer sample_rt (mocked \<lparr>status_code = 404, decoded = Some (JObj [(''message'', JStr ''not found''), (''context'', JStr ''server''), (''status'', JStr ''error'')])\<rparr>) ''http://0.0.0.0:8080''
            ''abc'' ''k'' 3 16 ''Unknown'')
          = Inl (RuntimeError text)
        \<and> outcome (delete sample_rt (mocked \<lparr>status_code = 404, decoded = Some (JObj [(''message'', JStr ''not found''), (''context'', JStr ''server''), (''status'', JStr ''error'')])\<rparr>) ''http://0.0.0.0:8080'' ''abc'' ''k'')
          = Inl (RuntimeError text)
        \<and> outcome (heartbeat sample_rt (mocked \<lparr>status_code = 404, decoded = Some (JObj [(''message'', JStr ''not found''), (''context'', JStr ''server''), (''status'', JStr ''error'')])\<rparr>) ''http://0.0.0.0:8080'' ''abc'' ''k''
            (7777 :: int))
          = Inl (RuntimeError text)
        \<and> outcome (getServerList sample_rt (mocked \<lparr>status_code = 404, decoded = Some (JObj [(''message'', JStr ''not found''), (''context'', JStr ''server''), (''status'', JStr ''error'')])\<rparr>) ''http://0.0.0.0:8080'')
          = Inl (RuntimeError text))"
proof -
  let ?items = "[(''message'', JStr ''not found''), (''context'', JStr ''server''),
                 (''status'', JStr ''error'')] :: (string \<times> real json) list"
  let ?r503 = "\<lparr>status_code = 503, decoded = Some (JObj ?items)\<rparr>"
  let ?r404 = "\<lparr>status_code = 404, decoded = Some (JObj ?items)\<rparr>"
  have s503: "str_int 503 = ''503''" and s404: "str_int 404 = ''404''"
    by code_simp+
  have d503: "decoded ?r503 = Some (JObj ?items)" and d404: "decoded ?r404 = Some (JObj ?items)"
    by simp_all
  have generic: "outcome (snd (registerServer sample_rt (mocked \<lparr>status_code = 503, decoded = Some (JObj [(''message'', JStr ''not found''), (''context'', JStr ''server''), (''status'', JStr ''error'')])\<rparr>) sample_store
       ''http://0.0.0.0:8080'' 7777 3075 7071 ''Chivalry 2 Server'' ''No description''
       ''Unknown'' 3 16 default_mods))
     = Inl (RuntimeError ''Server error: 503'')
   \<and> outcome (updateServer sample_rt (mocked \<lparr>status_code = 503, decoded = Some (JObj [(''message'', JStr ''not found''), (''context'', JStr ''server''), (''status'', JStr ''error'')])\<rparr>) ''http://0.0.0.0:8080''
       ''abc'' ''k'' 3 16 ''Unknown'')
     = Inl (RuntimeError ''Server error: 503'')
   \<and> outcome (delete sample_rt (mocked \<lparr>status_code = 503, decoded = Some (JObj [(''message'', JStr ''not found''), (''context'', JStr ''server''), (''status'', JStr ''error'')])\<rparr>) ''http://0.0.0.0:8080'' ''abc'' ''k'')
     = Inl (RuntimeError ''Server error: 503'')
   \<and> outcome (heartbeat sample_rt (mocked \<lparr>status_code = 503, decoded = Some (JObj [(''message'', JStr ''not found''), (''context'', JStr ''server''), (''status'', JStr ''error'')])\<rparr>) ''http://0.0.0.0:8080'' ''abc'' ''k''
       (7777 :: int))
     = Inl (RuntimeError ''Server error: 503'')
   \<and> outcome (getServerList sample_rt (mocked \<lparr>status_code = 503, decoded = Some (JObj [(''message'', JStr ''not found''), (''context'', JStr ''server''), (''status'', JStr ''error'')])\<rparr>) ''http://0.0.0.0:8080'')
     = Inl (RuntimeError ''Server error: 503'')"
    using non_success_generic_or_detailed
      [OF d503, where rt = sample_rt and st = sample_store
         and address = "''http://0.0.0.0:8080''"
         and gamePort = 7777 and pingPort = 3075 and queryPort = 7071
         and name = "''Chivalry 2 Server''" and description = "''No description''"
         and current_map = "''Unknown''" and player_count = 3 and max_players = 16
         and mods = default_mods and unique_id = "''abc''" and key = "''k''"
         and port = "7777 :: int"]
      s503
    by simp
  have detailed: "\<exists>text.
        text = ''Server could not be updated: error 404.\<newline>Message: not found\<newline>Context: server\<newline>Status: error\<newline>''
        \<and> sublist ''404'' text \<and> sublist ''not found'' text
        \<and> sublist ''server'' text \<and> sublist ''error'' text
        \<and> outcome (snd (registerServer sample_rt (mocked \<lparr>status_code = 404, decoded = Some (JObj [(''message'', JStr ''not found''), (''context'', JStr ''server''), (''status'', JStr ''error'')])\<rparr>) sample_store
            ''http://0.0.0.0:8080'' 7777 3075 7071 ''Chivalry 2 Server'' ''No description''
            ''Unknown'' 3 16 default_mods))
          = Inl (RuntimeError text)
        \<and> outcome (updateServer sample_rt (mocked \<lparr>status_code = 404, decoded = Some (JObj [(''message'', JStr ''not found''), (''context'', JStr ''server''), (''status'', JStr ''error'')])\<rparr>) ''http://0.0.0.0:8080''
            ''abc'' ''k'' 3 16 ''Unknown'')
          = Inl (RuntimeError text)
        \<and> outcome (delete sample_rt (mocked \<lparr>status_code = 404, decoded = Some (JObj [(''message'', JStr ''not found''), (''context'', JStr ''server''), (''status'', JStr ''error'')])\<rparr>) ''http://0.0.0.0:8080'' ''abc'' ''k'')
          = Inl (RuntimeError text)
        \<and> outcome (heartbeat sample_rt (mocked \<lparr>status_code = 404, decoded = Some (JObj [(''message'', JStr ''not found''), (''context'', JStr ''server''), (''status'', JStr ''error'')])\<rparr>) ''http://0.0.0.0:8080'' ''abc'' ''k''
            (7777 :: int))
          = Inl (RuntimeError text)
        \<and> outcome (getServerList sample_rt (mocked \<lparr>status_code = 404, decoded = Some (JObj [(''message'', JStr ''not found''), (''context'', JStr ''server''), (''status'', JStr ''error'')])\<rparr>) ''http://0.0.0.0:8080'')
          = Inl (RuntimeError text)"
    using non_success_generic_or_detailed
      [OF d404, where rt = sample_rt and st = sample_store
         and address = "''http://0.0.0.0:8080''"
         and gamePort = 7777 and pingPort = 3075 and queryPort = 7071
         and name = "''Chivalry 2 Server''" and description = "''No description''"
         and current_map = "''Unknown''" and player_count = 3 and max_players = 16
         and mods = default_mods and unique_id = "''abc''" and key = "''k''"
         and port = "7777 :: int" and items = ?items and m = "JStr ''not found''"
         and c = "JStr ''server''" and s = "JStr ''error''"]
      s404
    by (simp add: py_str_def)
  from generic detailed show ?thesis
    by (simp only: conj_assoc)
qed

text \<open>
  C5, as the specification states it, fails: a response with status 200 whose body is
  not JSON makes \<^verbatim>\<open>updateServer\<close> return \<^verbatim>\<open>None\<close>, since the success path of
  \<^verbatim>\<open>updateServer\<close> and \<^verbatim>\<open>delete\<close> never reads the body.
\<close>

theorem unparseable_body_no_error_counterexample:
  "decoded \<lparr>status_code = 200, decoded = (None :: real json option)\<rparr> = None
   \<and> outcome (updateServer sample_rt (mocked \<lparr>status_code = 200, decoded = None\<rparr>)
        ''http://0.0.0.0:8080'' ''abc'' ''k'' 3 16 ''Unknown'') = Inr ()"
  by (simp add: updateServer_def Let_def mocked_apply ok_def)

text \<open>
  C5, amended. For each of the five operations, a response with a status code from 400
  up to 599 whose body cannot be decoded as JSON makes the call raise the RuntimeError
  whose message is \<^verbatim>\<open>Server error (could not parse response body): \<close> followed by the
  status code; the message has nothing else of the response in it.
\<close>

theorem unparseable_error_body:
  assumes "400 \<le> status_code response" and "status_code response < 600"
    and "decoded response = None"
  shows "outcome (snd (registerServer rt (mocked response) st address gamePort pingPort
            queryPort name description current_map player_count max_players mods))
           = Inl (RuntimeError (''Server error (could not parse response body): '' @
                                str_int (status_code response)))
       \<and> outcome (updateServer rt (mocked response) address unique_id key player_count
            max_players current_map)
           = Inl (RuntimeError (''Server error (could not parse response body): '' @
                                str_int (status_code response)))
       \<and> outcome (delete rt (mocked response) address unique_id key)
           = Inl (RuntimeError (''Server error (could not parse response body): '' @
                                str_int (status_code response)))
       \<and> outcome (heartbeat rt (mocked response) address unique_id key port)
           = Inl (RuntimeError (''Server error (could not parse response body): '' @
                                str_int (status_code response)))
       \<and> outcome (getServerList rt (mocked response) address)
           = Inl (RuntimeError (''Server error (could not parse response body): '' @
                                str_int (status_code response)))"
proof -
  have "\<not> ok response"
    using assms(1,2) by (rule not_ok_4xx_5xx)
  then show ?thesis
    by (simp add: non_ok_outcome checkResponse_undecoded [OF assms(3)])
qed

theorem unparseable_error_body_witness:
  "outcome (snd (registerServer sample_rt (mocked \<lparr>status_code = 503, decoded = None\<rparr>)
      sample_store ''http://0.0.0.0:8080'' 7777 3075 7071 ''Chivalry 2 Server''
      ''No description'' ''Unknown'' 3 16 default_mods))
     = Inl (RuntimeError ''Server error (could not parse response body): 503'')
   \<and> outcome (updateServer sample_rt (mocked \<lparr>status_code = 503, decoded = None\<rparr>)
        ''http://0.0.0.0:8080'' ''abc'' ''k'' 3 16 ''Unknown'')
     = Inl (RuntimeError ''Server error (could not parse response body): 503'')
   \<and> outcome (delete sample_rt (mocked \<lparr>status_code = 503, decoded = None\<rparr>)
        ''http://0.0.0.0:8080'' ''abc'' ''k'')
     = Inl (RuntimeError ''Server error (could not parse response body): 503'')
   \<and> outcome (heartbeat sample_rt (mocked \<lparr>status_code = 503, decoded = None\<rparr>)
        ''http://0.0.0.0:8080'' ''abc'' ''k'' (7777 :: int))
     = Inl (RuntimeError ''Server error (could not parse response body): 503'')
   \<and> outcome (getServerList sample_rt (mocked \<lparr>status_code = 503, decoded = None\<rparr>)
        ''http://0.0.0.0:8080'')
     = Inl (RuntimeError ''Server error (could not parse response body): 503'')"
proof -
  have code: "str_int 503 = ''503''"
    by code_simp
  show ?thesis
    using unparseable_error_body
      [where response = "\<lparr>status_code = 503, decoded = None\<rparr>" and rt = sample_rt
         and st = sample_store and address = "''http://0.0.0.0:8080''"
         and gamePort = 7777 and pingPort = 3075 and queryPort = 7071
         and name = "''Chivalry 2 Server''" and description = "''No description''"
         and current_map = "''Unknown''" and player_count = 3 and max_players = 16
         and mods = default_mods and unique_id = "''abc''" and key = "''k''"
         and port = "7777 :: int"]
      code
    by simp
qed

text \<open>
  C6. A response with status 404 whose body is the JSON object \<^verbatim>\<open>{}\<close> makes every
  operation raise \<^verbatim>\<open>KeyError('message')\<close>, which leaves \<^verbatim>\<open>__buildError\<close> uncaught, and
  not the RuntimeError that the docstrings announce for a non-ok status.
\<close>

theorem missing_keys_KeyError:
  "outcome (snd (registerServer sample_rt
      (mocked \<lparr>status_code = 404, decoded = Some (JObj [])\<rparr>)
      sample_store ''http://0.0.0.0:8080'' 7777 3075 7071 ''Chivalry 2 Server''
      ''No description'' ''Unknown'' (- 1) (- 1) default_mods))
     = Inl (KeyError ''message'')
   \<and> outcome (updateServer sample_rt (mocked \<lparr>status_code = 404, decoded = Some (JObj [])\<rparr>)
        ''http://0.0.0.0:8080'' ''abc'' ''k'' 3 16 ''Unknown'')
     = Inl (KeyError ''message'')
   \<and> outcome (delete sample_rt (mocked \<lparr>status_code = 404, decoded = Some (JObj [])\<rparr>)
        ''http://0.0.0.0:8080'' ''abc'' ''k'')
     = Inl (KeyError ''message'')
   \<and> outcome (heartbeat sample_rt (mocked \<lparr>status_code = 404, decoded = Some (JObj [])\<rparr>)
        ''http://0.0.0.0:8080'' ''abc'' ''k'' (7777 :: int))
     = Inl (KeyError ''message'')
   \<and> outcome (getServerList sample_rt (mocked \<lparr>status_code = 404, decoded = Some (JObj [])\<rparr>)
        ''http://0.0.0.0:8080'')
     = Inl (KeyError ''message'')"
proof -
  let ?response = "\<lparr>status_code = 404, decoded = Some (JObj [])\<rparr> :: real response"
  have failed: "\<not> ok ?response"
    by (simp add: ok_def)
  have "buildError sample_rt 404 (JObj []) = Inl (KeyError ''message'')"
    by (simp add: buildError_def py_getitem_missing)
  then have raised: "checkResponse sample_rt ?response = KeyError ''message''"
    by (simp add: checkResponse_def)
  show ?thesis
    by (simp add: non_ok_outcome [OF failed] raised)
qed

subsection \<open>Registration\<close>

text \<open>
  C2. For a response with a status code from 200 up to 299 whose body is an object with
  \<^verbatim>\<open>server.unique_id = u\<close>, \<^verbatim>\<open>key = k\<close> and \<^verbatim>\<open>refresh_before = r\<close>,
  \<^verbatim>\<open>registerServer\<close> returns the triple of \<open>u\<close>, \<open>k\<close> and \<^verbatim>\<open>float(r)\<close>, and raises what
  \<^verbatim>\<open>float(r)\<close> raises when it does.
\<close>

theorem registerServer_success_triple:
  assumes "200 \<le> status_code response" and "status_code response < 300"
    and "decoded response = Some (JObj items)"
    and "map_of items ''server'' = Some (JObj server)"
    and "map_of server ''unique_id'' = Some u"
    and "map_of items ''key'' = Some k"
    and "map_of items ''refresh_before'' = Some r"
  shows "outcome (snd (registerServer rt (mocked response) st address gamePort pingPort
            queryPort name description current_map player_count max_players mods))
         = (case py_float rt r of Inl e \<Rightarrow> Inl e | Inr deadline \<Rightarrow> Inr (u, k, deadline))"
proof -
  have "ok response"
    using assms(1,2) by (rule ok_2xx)
  then show ?thesis
    using assms(3-7)
    by (simp add: registerServer_def Let_def mocked_apply py_getitem_JObj)
qed

theorem registerServer_success_triple_witness:
  "outcome (snd (registerServer sample_rt
      (mocked \<lparr>status_code = 200,
               decoded = Some (JObj [(''server'', JObj [(''unique_id'', JStr ''abc'')]),
                                     (''key'', JStr ''k''),
                                     (''refresh_before'', JFloat 123.5)])\<rparr>)
      sample_store ''http://0.0.0.0:8080'' 7777 3075 7071 ''Chivalry 2 Server''
      ''No description'' ''Unknown'' (- 1) (- 1) default_mods))
   = Inr (JStr ''abc'', JStr ''k'', 123.5)"
proof -
  let ?items = "[(''server'', JObj [(''unique_id'', JStr ''abc'')]), (''key'', JStr ''k''),
                 (''refresh_before'', JFloat 123.5)] :: (string \<times> real json) list"
  let ?response = "\<lparr>status_code = 200, decoded = Some (JObj ?items)\<rparr>"
  have "outcome (snd (registerServer sample_rt (mocked ?response) sample_store
          ''http://0.0.0.0:8080'' 7777 3075 7071 ''Chivalry 2 Server'' ''No description''
          ''Unknown'' (- 1) (- 1) default_mods))
        = (case py_float sample_rt (JFloat 123.5) of
             Inl e \<Rightarrow> Inl e
           | Inr deadline \<Rightarrow> Inr (JStr ''abc'', JStr ''k'', deadline))"
    by (rule registerServer_success_triple
          [where items = ?items and server = "[(''unique_id'', JStr ''abc'')]"]) simp_all
  then show ?thesis
    by (simp add: py_float_def)
qed

text \<open>
  C3. \<^verbatim>\<open>registerServer\<close> sends one POST to \<^verbatim>\<open>{address}/api/v1/servers\<close> whose JSON body
  has the seven keys \<^verbatim>\<open>ports\<close>, \<^verbatim>\<open>name\<close>, \<^verbatim>\<open>description\<close>, \<^verbatim>\<open>current_map\<close>,
  \<^verbatim>\<open>player_count\<close>, \<^verbatim>\<open>max_players\<close> and \<^verbatim>\<open>mods\<close>, each once and bound to the
  parameter of its name, and no other; \<^verbatim>\<open>ports\<close> is an object with the three keys
  \<^verbatim>\<open>game\<close>, \<^verbatim>\<open>ping\<close> and \<^verbatim>\<open>a2s\<close>, bound to \<^verbatim>\<open>gamePort\<close>, \<^verbatim>\<open>pingPort\<close> and
  \<^verbatim>\<open>queryPort\<close>, and no other.
\<close>

theorem registerServer_body_fields:
  "\<exists>request items ports.
     sent (snd (registerServer rt backend st address gamePort pingPort queryPort name
                  description current_map player_count max_players mods)) = [request]
     \<and> verb request = POST
     \<and> url request = address @ ''/api/v1/servers''
     \<and> json request = Some (JObj items)
     \<and> map fst items = [''ports'', ''name'', ''description'', ''current_map'',
                         ''player_count'', ''max_players'', ''mods'']
     \<and> distinct (map fst items)
     \<and> map_of items ''ports'' = Some (JObj ports)
     \<and> map_of items ''name'' = Some (JStr name)
     \<and> map_of items ''description'' = Some (JStr description)
     \<and> map_of items ''current_map'' = Some (JStr current_map)
     \<and> map_of items ''player_count'' = Some (JInt player_count)
     \<and> map_of items ''max_players'' = Some (JInt max_players)
     \<and> map_of items ''mods'' = Some (JArr (st mods))
     \<and> map fst ports = [''game'', ''ping'', ''a2s'']
     \<and> distinct (map fst ports)
     \<and> map_of ports ''game'' = Some (JInt gamePort)
     \<and> map_of ports ''ping'' = Some (JInt pingPort)
     \<and> map_of ports ''a2s'' = Some (JInt queryPort)"
proof -
  define ports :: "(string \<times> 'a json) list"
    where "ports = [(''game'', JInt gamePort), (''ping'', JInt pingPort),
                    (''a2s'', JInt queryPort)]"
  define items :: "(string \<times> 'a json) list"
    where "items = [(''ports'', JObj ports), (''name'', JStr name),
                    (''description'', JStr description), (''current_map'', JStr current_map),
                    (''player_count'', JInt player_count),
                    (''max_players'', JInt max_players), (''mods'', JArr (st mods))]"
  define request :: "'a request"
    where "request = \<lparr>verb = POST, url = address @ ''/api/v1/servers'', headers = None,
                       json = Some (JObj items)\<rparr>"
  have issued: "sent (snd (registerServer rt backend st address gamePort pingPort queryPort
                  name description current_map player_count max_players mods)) = [request]"
    by (simp add: registerServer_def Let_def request_def items_def ports_def)
  have top: "map fst items = [''ports'', ''name'', ''description'', ''current_map'',
                              ''player_count'', ''max_players'', ''mods'']"
    and nested: "map fst ports = [''game'', ''ping'', ''a2s'']"
    by (simp_all add: items_def ports_def)
  have unique: "distinct (map fst items)" "distinct (map fst ports)"
    unfolding top nested by simp_all
  have fields: "map_of items ''ports'' = Some (JObj ports)"
    "map_of items ''name'' = Some (JStr name)"
    "map_of items ''description'' = Some (JStr description)"
    "map_of items ''current_map'' = Some (JStr current_map)"
    "map_of items ''player_count'' = Some (JInt player_count)"
    "map_of items ''max_players'' = Some (JInt max_players)"
    "map_of items ''mods'' = Some (JArr (st mods))"
    by (simp_all add: items_def)
  have bound: "map_of ports ''game'' = Some (JInt gamePort)"
    "map_of ports ''ping'' = Some (JInt pingPort)"
    "map_of ports ''a2s'' = Some (JInt queryPort)"
    by (simp_all add: ports_def)
  have call: "verb request = POST" "url request = address @ ''/api/v1/servers''"
    "json request = Some (JObj items)"
    by (simp_all add: request_def)
  show ?thesis
    by (rule exI [of _ request], rule exI [of _ items], rule exI [of _ ports])
       (intro conjI issued top nested unique fields bound call)
qed

text \<open>
  C10. \<^verbatim>\<open>registerServer\<close> leaves every list object of the store as it found it,
  whatever the transport answers or raises, and the \<^verbatim>\<open>mods\<close> field of the body it sends
  is the list that \<^verbatim>\<open>mods\<close> refers to. The same holds for the shared default list of a
  call that omits \<^verbatim>\<open>mods\<close>.
\<close>

theorem registerServer_leaves_mods:
  "fst (registerServer rt backend st address gamePort pingPort queryPort name description
          current_map player_count max_players mods) = st
   \<and> (\<exists>request items.
         sent (snd (registerServer rt backend st address gamePort pingPort queryPort name
                      description current_map player_count max_players mods)) = [request]
         \<and> json request = Some (JObj items)
         \<and> map_of items ''mods'' = Some (JArr (st mods)))
   \<and> fst (registerServer_call rt backend st address gamePort' pingPort' queryPort' name'
            description' current_map' player_count' max_players' None) = st
   \<and> (\<exists>request items.
         sent (snd (registerServer_call rt backend st address gamePort' pingPort' queryPort'
                      name' description' current_map' player_count' max_players' None))
           = [request]
         \<and> json request = Some (JObj items)
         \<and> map_of items ''mods'' = Some (JArr (st default_mods)))"
proof -
  have frame: "fst (registerServer rt backend st a gp pp qp n d cm pc mp ms) = st"
    for a gp pp qp n d cm pc mp ms
    by (simp add: registerServer_def Let_def)
  have body: "\<exists>request items.
         sent (snd (registerServer rt backend st a gp pp qp n d cm pc mp ms)) = [request]
         \<and> json request = Some (JObj items)
         \<and> map_of items ''mods'' = Some (JArr (st ms))"
    for a gp pp qp n d cm pc mp ms
    by (simp add: registerServer_def Let_def)
  show ?thesis
    unfolding registerServer_call_def option.case
    by (intro conjI frame body)
qed

subsection \<open>Update, delete, heartbeat and listing\<close>

text \<open>
  C4. \<^verbatim>\<open>updateServer\<close>, \<^verbatim>\<open>delete\<close> and \<^verbatim>\<open>heartbeat\<close> each send one request whose only
  header is \<^verbatim>\<open>x-chiv2-server-browser-key\<close> with the key of the caller as its value;
  the key is neither in the URL nor in the body.
\<close>

theorem access_key_header_only:
  "sent (updateServer rt backend address unique_id key player_count max_players current_map)
     = [\<lparr>verb = PUT, url = address @ ''/api/v1/servers/'' @ unique_id,
         headers = Some [(''x-chiv2-server-browser-key'', key)],
         json = Some (JObj [(''player_count'', JInt player_count),
                            (''max_players'', JInt max_players),
                            (''current_map'', JStr current_map)])\<rparr>]
   \<and> sent (delete rt backend address unique_id key)
     = [\<lparr>verb = DELETE, url = address @ ''/api/v1/servers/'' @ unique_id,
         headers = Some [(''x-chiv2-server-browser-key'', key)],
         json = Some (JObj [])\<rparr>]
   \<and> sent (heartbeat rt backend address unique_id key port)
     = [\<lparr>verb = POST, url = address @ ''/api/v1/servers/'' @ unique_id @ ''/heartbeat'',
         headers = Some [(''x-chiv2-server-browser-key'', key)],
         json = None\<rparr>]"
proof (intro conjI)
  show "sent (updateServer rt backend address unique_id key player_count max_players
          current_map)
     = [\<lparr>verb = PUT, url = address @ ''/api/v1/servers/'' @ unique_id,
         headers = Some [(''x-chiv2-server-browser-key'', key)],
         json = Some (JObj [(''player_count'', JInt player_count),
                            (''max_players'', JInt max_players),
                            (''current_map'', JStr current_map)])\<rparr>]"
    by (simp add: updateServer_def Let_def)
  show "sent (delete rt backend address unique_id key)
     = [\<lparr>verb = DELETE, url = address @ ''/api/v1/servers/'' @ unique_id,
         headers = Some [(''x-chiv2-server-browser-key'', key)],
         json = Some (JObj [])\<rparr>]"
    by (simp add: delete_def Let_def)
  show "sent (heartbeat rt backend address unique_id key port)
     = [\<lparr>verb = POST, url = address @ ''/api/v1/servers/'' @ unique_id @ ''/heartbeat'',
         headers = Some [(''x-chiv2-server-browser-key'', key)],
         json = None\<rparr>]"
    by (simp add: heartbeat_def Let_def)
qed

text \<open>
  C7, as the specification states it, fails: \<^verbatim>\<open>heartbeat\<close> has a fourth required
  parameter, so a call with \<^verbatim>\<open>address\<close>, \<^verbatim>\<open>unique_id\<close> and \<^verbatim>\<open>key\<close> alone raises
  TypeError and sends nothing.
\<close>

theorem heartbeat_three_arguments_counterexample:
  "heartbeat_call sample_rt
     (mocked \<lparr>status_code = 200,
              decoded = Some (JObj [(''refresh_before'', JFloat 123.5)])\<rparr>)
     ''http://0.0.0.0:8080'' ''abc'' ''k'' (None :: int option)
   = \<lparr>sent = [], outcome = Inl TypeError\<rparr>"
  by (simp add: heartbeat_call_def)

text \<open>
  C7, amended. \<^verbatim>\<open>heartbeat\<close> takes the four required parameters \<^verbatim>\<open>address\<close>,
  \<^verbatim>\<open>unique_id\<close>, \<^verbatim>\<open>key\<close> and \<^verbatim>\<open>port\<close>: without \<^verbatim>\<open>port\<close> the call raises TypeError
  and sends nothing; with all four it sends one POST to
  \<^verbatim>\<open>{address}/api/v1/servers/{unique_id}/heartbeat\<close> with the access-key header and no
  body, and for a response with a status code from 200 up to 299 whose body is an object
  with \<^verbatim>\<open>refresh_before = r\<close> its outcome is that of \<^verbatim>\<open>float(r)\<close>, for an int and for
  a float alike.
\<close>

theorem heartbeat_four_parameters:
  "heartbeat_call rt backend address unique_id key (None :: 'p option)
       = \<lparr>sent = [], outcome = Inl TypeError\<rparr>
   \<and> sent (heartbeat_call rt backend address unique_id key (Some (port :: 'p)))
       = [\<lparr>verb = POST, url = address @ ''/api/v1/servers/'' @ unique_id @ ''/heartbeat'',
           headers = Some [(''x-chiv2-server-browser-key'', key)], json = None\<rparr>]
   \<and> (200 \<le> status_code response \<and> status_code response < 300 \<longrightarrow>
        decoded response = Some (JObj items) \<longrightarrow>
        map_of items ''refresh_before'' = Some r \<longrightarrow>
        outcome (heartbeat_call rt (mocked response) address unique_id key (Some port))
          = py_float rt r)"
proof (intro conjI impI)
  show "heartbeat_call rt backend address unique_id key (None :: 'p option)
          = \<lparr>sent = [], outcome = Inl TypeError\<rparr>"
    by (simp add: heartbeat_call_def)
  show "sent (heartbeat_call rt backend address unique_id key (Some port))
       = [\<lparr>verb = POST, url = address @ ''/api/v1/servers/'' @ unique_id @ ''/heartbeat'',
           headers = Some [(''x-chiv2-server-browser-key'', key)], json = None\<rparr>]"
    by (simp add: heartbeat_call_def heartbeat_def Let_def)
next
  assume "200 \<le> status_code response \<and> status_code response < 300"
    and body: "decoded response = Some (JObj items)"
    and field: "map_of items ''refresh_before'' = Some r"
  then have "ok response"
    by (simp add: ok_2xx)
  with body field
  show "outcome (heartbeat_call rt (mocked response) address unique_id key (Some port))
          = py_float rt r"
    by (simp add: heartbeat_call_def heartbeat_def Let_def mocked_apply py_getitem_JObj)
qed

theorem heartbeat_four_parameters_witness:
  "sent (heartbeat_call sample_rt
       (mocked \<lparr>status_code = 200,
                decoded = Some (JObj [(''refresh_before'', JFloat 123.5)])\<rparr>)
       ''http://0.0.0.0:8080'' ''abc'' ''k'' (Some (7777 :: int)))
     = [\<lparr>verb = POST, url = ''http://0.0.0.0:8080/api/v1/servers/abc/heartbeat'',
         headers = Some [(''x-chiv2-server-browser-key'', ''k'')], json = None\<rparr>]
   \<and> outcome (heartbeat_call sample_rt
       (mocked \<lparr>status_code = 200,
                decoded = Some (JObj [(''refresh_before'', JFloat 123.5)])\<rparr>)
       ''http://0.0.0.0:8080'' ''abc'' ''k'' (Some (7777 :: int)))
     = Inr 123.5
   \<and> outcome (heartbeat_call sample_rt
       (mocked \<lparr>status_code = 200,
                decoded = Some (JObj [(''refresh_before'', JInt 124)])\<rparr>)
       ''http://0.0.0.0:8080'' ''abc'' ''k'' (Some (7777 :: int)))
     = Inr 124"
proof -
  note fractional = heartbeat_four_parameters
      [where rt = sample_rt and address = "''http://0.0.0.0:8080''" and unique_id = "''abc''"
         and key = "''k''" and port = "7777 :: int"
         and backend = "mocked \<lparr>status_code = 200,
                decoded = Some (JObj [(''refresh_before'', JFloat 123.5)])\<rparr>"
         and response = "\<lparr>status_code = 200,
                decoded = Some (JObj [(''refresh_before'', JFloat 123.5)])\<rparr>"
         and items = "[(''refresh_before'', JFloat 123.5)]" and r = "JFloat 123.5"]
  note integral = heartbeat_four_parameters
      [where rt = sample_rt and address = "''http://0.0.0.0:8080''" and unique_id = "''abc''"
         and key = "''k''" and port = "7777 :: int"
         and backend = "mocked \<lparr>status_code = 200,
                decoded = Some (JObj [(''refresh_before'', JInt 124)])\<rparr>"
         and response = "\<lparr>status_code = 200,
                decoded = Some (JObj [(''refresh_before'', JInt 124)])\<rparr>"
         and items = "[(''refresh_before'', JInt 124)]" and r = "JInt 124"]
  have request: "sent (heartbeat_call sample_rt
       (mocked \<lparr>status_code = 200,
                decoded = Some (JObj [(''refresh_before'', JFloat 123.5)])\<rparr>)
       ''http://0.0.0.0:8080'' ''abc'' ''k'' (Some (7777 :: int)))
     = [\<lparr>verb = POST, url = ''http://0.0.0.0:8080/api/v1/servers/abc/heartbeat'',
         headers = Some [(''x-chiv2-server-browser-key'', ''k'')], json = None\<rparr>]"
    using fractional by simp
  have deadline: "outcome (heartbeat_call sample_rt
       (mocked \<lparr>status_code = 200,
                decoded = Some (JObj [(''refresh_before'', JFloat 123.5)])\<rparr>)
       ''http://0.0.0.0:8080'' ''abc'' ''k'' (Some (7777 :: int)))
     = Inr 123.5"
    using fractional by (simp add: py_float_def)
  have deadline': "outcome (heartbeat_call sample_rt
       (mocked \<lparr>status_code = 200,
                decoded = Some (JObj [(''refresh_before'', JInt 124)])\<rparr>)
       ''http://0.0.0.0:8080'' ''abc'' ''k'' (Some (7777 :: int)))
     = Inr 124"
    using integral by (simp add: py_float_def sample_rt_def)
  from request deadline deadline' show ?thesis
    by (intro conjI)
qed

text \<open>
  C9. What \<^verbatim>\<open>heartbeat\<close> sends, and what it returns or raises, is the same for any two
  values of \<^verbatim>\<open>port\<close>, of any types.
\<close>

theorem heartbeat_ignores_port:
  "heartbeat rt backend address unique_id key (p1 :: 'p)
     = heartbeat rt backend address unique_id key (p2 :: 'q)
   \<and> heartbeat_call rt backend address unique_id key (Some p1)
     = heartbeat_call rt backend address unique_id key (Some p2)"
  by (simp add: heartbeat_call_def heartbeat_def)

text \<open>
  C8. For a response with a status code from 200 up to 299 whose body is an object with
  the key \<^verbatim>\<open>servers\<close>, \<^verbatim>\<open>getServerList\<close> returns the value of that key as it was
  decoded.
\<close>

theorem getServerList_returns_servers:
  assumes "200 \<le> status_code response" and "status_code response < 300"
    and "decoded response = Some (JObj items)"
    and "map_of items ''servers'' = Some servers"
  shows "outcome (getServerList rt (mocked response) address) = Inr servers"
proof -
  have "ok response"
    using assms(1,2) by (rule ok_2xx)
  then show ?thesis
    using assms(3,4) by (simp add: getServerList_def Let_def mocked_apply py_getitem_JObj)
qed

theorem getServerList_returns_servers_witness:
  "outcome (getServerList sample_rt
      (mocked \<lparr>status_code = 200,
               decoded = Some (JObj [(''servers'', JArr [JObj [(''unique_id'', JStr ''x'')]])])\<rparr>)
      ''http://0.0.0.0:8080'')
   = Inr (JArr [JObj [(''unique_id'', JStr ''x'')]])"
  by (rule getServerList_returns_servers
        [where items = "[(''servers'', JArr [JObj [(''unique_id'', JStr ''x'')]])]"]) simp_all

end
